theory Spec2Isabelle
  imports Complex_Main
begin

section \<open>Values of the host language\<close>

text \<open>
  The converters of \<^verbatim>\<open>src/converters.ts\<close> take and return values of type \<^verbatim>\<open>any\<close>.
  The model covers the values a JSON-like input can hold, plus \<^verbatim>\<open>undefined\<close>, dates and
  objects created with a class prototype.

  A number is \<^verbatim>\<open>NaN\<close>, an infinity or a finite value. Finite values are kept as exact
  rationals: rounding to binary64, overflow to infinity and the sign of zero are not modelled.
  A string is a list of 8-bit characters. An object is the list of its own properties in
  creation order, tagged with the class whose prototype it was created with; members found
  only through the prototype chain are not modelled.
\<close>

datatype jsnum = NaN | Fin rat | PosInf | NegInf

type_synonym ClassType = nat

datatype jsval =
    Undefined
  | Null
  | Bool bool
  | Num jsnum
  | Str string
  | Arr "jsval list"
  | Obj "ClassType option" "(string \<times> jsval) list"
  | DateV jsnum

fun typeof :: "jsval \<Rightarrow> string" where
  "typeof Undefined = ''undefined''"
| "typeof Null = ''object''"
| "typeof (Bool b) = ''boolean''"
| "typeof (Num n) = ''number''"
| "typeof (Str s) = ''string''"
| "typeof (Arr xs) = ''object''"
| "typeof (Obj c ps) = ''object''"
| "typeof (DateV t) = ''object''"

text \<open>\<^verbatim>\<open>v == undefined\<close>: true for \<^verbatim>\<open>undefined\<close> and \<^verbatim>\<open>null\<close> only.\<close>

fun looseUndefined :: "jsval \<Rightarrow> bool" where
  "looseUndefined Undefined = True"
| "looseUndefined Null = True"
| "looseUndefined v = False"

subsection \<open>Numbers read from strings\<close>

definition isDigit :: "char \<Rightarrow> bool" where
  "isDigit c = (c \<in> set ''0123456789'')"

definition digitVal :: "char \<Rightarrow> nat" where
  "digitVal c = of_char c - 48"

definition digitsVal :: "string \<Rightarrow> nat" where
  "digitsVal ds = foldl (\<lambda>a c. 10 * a + digitVal c) 0 ds"

definition isWhiteSpace :: "char \<Rightarrow> bool" where
  "isWhiteSpace c = ((of_char c :: nat) \<in> {9, 10, 11, 12, 13, 32, 160})"

definition pow10 :: "int \<Rightarrow> rat" where
  "pow10 e = (if 0 \<le> e then 10 ^ nat e else 1 / 10 ^ nat (- e))"

text \<open>
  The exponent part of a decimal literal, read from the front of \<open>r\<close>: an \<^verbatim>\<open>e\<close> or
  \<^verbatim>\<open>E\<close>, an optional sign and at least one digit. Without one the exponent is 0 and
  nothing is consumed.
\<close>

definition exponentPart :: "string \<Rightarrow> int \<times> string" where
  "exponentPart r =
     (case r of
        [] \<Rightarrow> (0, r)
      | c # r1 \<Rightarrow>
          if c = CHR ''e'' \<or> c = CHR ''E'' then
            (case r1 of
               [] \<Rightarrow> (0, r)
             | s # r2 \<Rightarrow>
                 if s = CHR ''+'' \<or> s = CHR ''-'' then
                   (if takeWhile isDigit r2 = [] then (0, r)
                    else ((if s = CHR ''-'' then - 1 else 1) * int (digitsVal (takeWhile isDigit r2)),
                          dropWhile isDigit r2))
                 else
                   (if takeWhile isDigit r1 = [] then (0, r)
                    else (int (digitsVal (takeWhile isDigit r1)), dropWhile isDigit r1)))
          else (0, r))"

text \<open>
  The longest prefix of \<open>s\<close> that is an unsigned decimal literal (\<^verbatim>\<open>Infinity\<close>,
  \<^verbatim>\<open>digits[.digits][exp]\<close> or \<^verbatim>\<open>.digits[exp]\<close>), with its value and the unread rest;
  \<open>None\<close> when no prefix is one.
\<close>

definition strUnsignedDecimalLiteral :: "string \<Rightarrow> (jsnum \<times> string) option" where
  "strUnsignedDecimalLiteral s =
     (if take 8 s = ''Infinity'' then Some (PosInf, drop 8 s)
      else
        (let ip = takeWhile isDigit s; r1 = dropWhile isDigit s in
         case r1 of
           [] \<Rightarrow> (if ip = [] then None else Some (Fin (of_nat (digitsVal ip)), []))
         | c # r2 \<Rightarrow>
             if c = CHR ''.'' then
               (let fp = takeWhile isDigit r2; r3 = dropWhile isDigit r2 in
                if ip = [] \<and> fp = [] then None
                else Some (Fin ((of_nat (digitsVal ip) + of_nat (digitsVal fp) / 10 ^ length fp)
                                 * pow10 (fst (exponentPart r3))),
                           snd (exponentPart r3)))
             else
               (if ip = [] then None
                else Some (Fin (of_nat (digitsVal ip) * pow10 (fst (exponentPart r1))),
                           snd (exponentPart r1)))))"

fun negate :: "jsnum \<Rightarrow> jsnum" where
  "negate NaN = NaN"
| "negate (Fin q) = Fin (- q)"
| "negate PosInf = NegInf"
| "negate NegInf = PosInf"

definition strDecimalLiteral :: "string \<Rightarrow> (jsnum \<times> string) option" where
  "strDecimalLiteral s =
     (case s of
        [] \<Rightarrow> None
      | c # r \<Rightarrow>
          if c = CHR ''+'' then strUnsignedDecimalLiteral r
          else if c = CHR ''-'' then map_option (\<lambda>(n, rest). (negate n, rest)) (strUnsignedDecimalLiteral r)
          else strUnsignedDecimalLiteral s)"

text \<open>
  \<^verbatim>\<open>parseFloat\<close> on a string: leading white space is dropped, the longest prefix that is a
  decimal literal is read and whatever follows it is ignored; \<^verbatim>\<open>NaN\<close> when there is no
  such prefix.
\<close>

definition parseFloatString :: "string \<Rightarrow> jsnum" where
  "parseFloatString s =
     (case strDecimalLiteral (dropWhile isWhiteSpace s) of
        None \<Rightarrow> NaN
      | Some (n, rest) \<Rightarrow> n)"

text \<open>
  \<^verbatim>\<open>parseFloat\<close> on any value first turns the value into a string. \<^verbatim>\<open>undefined\<close>,
  \<^verbatim>\<open>null\<close>, booleans, plain objects and dates print as text that starts with no digit,
  sign or dot. A number prints as a literal that reads back as the same number. An array
  prints its elements separated by commas (\<^verbatim>\<open>null\<close> and \<^verbatim>\<open>undefined\<close> as nothing), and a
  comma ends every literal, so only the first element is read.
\<close>

fun parseFloat :: "jsval \<Rightarrow> jsnum" where
  "parseFloat (Str s) = parseFloatString s"
| "parseFloat (Num n) = n"
| "parseFloat (Arr []) = NaN"
| "parseFloat (Arr (x # xs)) = parseFloat x"
| "parseFloat v = NaN"

fun isNaN :: "jsnum \<Rightarrow> bool" where
  "isNaN NaN = True"
| "isNaN n = False"

text \<open>\<^verbatim>\<open>n % 1\<close>: what is left of \<open>n\<close> after truncating it towards zero.\<close>

fun remainderOne :: "jsnum \<Rightarrow> jsnum" where
  "remainderOne (Fin q) = Fin (q - of_int (if 0 \<le> q then \<lfloor>q\<rfloor> else \<lceil>q\<rceil>))"
| "remainderOne n = NaN"

section \<open>Type descriptors, errors\<close>

datatype PrimitiveType = IntT | FloatT | StringT | BooleanT

text \<open>
  A target type: a primitive, \<^verbatim>\<open>Date\<close>, \<^verbatim>\<open>Object\<close>, an array literal of types (of which
  only element 0 is read) or a class constructor.
\<close>

datatype Type =
    PrimitiveT PrimitiveType
  | DateT
  | ObjectT
  | ArrayT "Type list"
  | ClassT ClassType

text \<open>One constructor for each \<^verbatim>\<open>throw\<close> of \<^verbatim>\<open>src/converters.ts\<close>.\<close>

datatype error =
    UnsupportedType jsval Type
  | ResultUndefined jsval Type
  | IntFail jsval
  | FloatFail jsval
  | StringFail jsval
  | BooleanFail jsval
  | DateFail jsval
  | ObjectFail jsval
  | ElementTypeUndefined jsval
  | ArrayFail jsval
  | ClassFail jsval ClassType
  | MissingRequiredField jsval ClassType string
  | ValidationError jsval ClassType string jsval string

section \<open>Primitive converters\<close>

definition convertToInt :: "jsval \<Rightarrow> error + jsval" where
  "convertToInt val =
     (let parsed = (case val of Num n \<Rightarrow> n | _ \<Rightarrow> parseFloat val) in
      if isNaN parsed \<or> remainderOne parsed \<noteq> Fin 0 then Inl (IntFail val)
      else Inr (Num parsed))"

definition convertToFloat :: "jsval \<Rightarrow> error + jsval" where
  "convertToFloat val =
     (let parsed = (case val of Num n \<Rightarrow> n | _ \<Rightarrow> parseFloat val) in
      if isNaN parsed then Inl (FloatFail val)
      else Inr (Num parsed))"

text \<open>
  \<^verbatim>\<open>convertToString\<close> compares \<open>val\<close> itself with the words \<^verbatim>\<open>'string'\<close> and
  \<^verbatim>\<open>'number'\<close>. In the second branch \<open>val\<close> is that word, so \<^verbatim>\<open>'' + val\<close> joins two
  strings.
\<close>

definition convertToString :: "jsval \<Rightarrow> error + jsval" where
  "convertToString val =
     (if val = Str ''string'' then Inr val
      else if val = Str ''number'' then Inr (Str ('''' @ ''number''))
      else Inl (StringFail val))"

definition convertToBoolean :: "jsval \<Rightarrow> error + jsval" where
  "convertToBoolean val =
     (if val = Str ''boolean'' then Inr val
      else if val = Str ''true'' then Inr (Bool True)
      else if val = Str ''false'' then Inr (Bool False)
      else Inl (BooleanFail val))"

text \<open>
  \<^verbatim>\<open>new Date(val)\<close> is taken from the host: \<open>newDate val\<close> is the time value of the date
  it builds, \<^verbatim>\<open>NaN\<close> for an invalid date.
\<close>

definition convertToDate :: "(jsval \<Rightarrow> jsnum) \<Rightarrow> jsval \<Rightarrow> error + jsval" where
  "convertToDate newDate val =
     (let parsed = newDate val in
      if isNaN parsed then Inl (DateFail val)
      else Inr (DateV parsed))"

definition convertToObject :: "jsval \<Rightarrow> error + jsval" where
  "convertToObject val =
     (if val \<noteq> Str ''object'' then Inl (ObjectFail val)
      else Inr val)"

section \<open>The metadata store\<close>

text \<open>
  A \<^verbatim>\<open>Map\<close> keeps its entries in insertion order: \<^verbatim>\<open>set\<close> on a key that is present
  replaces the value where the entry stands, \<^verbatim>\<open>set\<close> on a new key appends, \<^verbatim>\<open>delete\<close>
  removes the entry. The own properties of an object behave the same way under assignment.
\<close>

definition mapHas :: "('k \<times> 'v) list \<Rightarrow> 'k \<Rightarrow> bool" where
  "mapHas m k = (map_of m k \<noteq> None)"

fun mapSet :: "('k \<times> 'v) list \<Rightarrow> 'k \<Rightarrow> 'v \<Rightarrow> ('k \<times> 'v) list" where
  "mapSet [] k v = [(k, v)]"
| "mapSet (e # m) k v = (if fst e = k then (k, v) # m else e # mapSet m k v)"

definition mapDelete :: "('k \<times> 'v) list \<Rightarrow> 'k \<Rightarrow> ('k \<times> 'v) list" where
  "mapDelete m k = filter (\<lambda>e. fst e \<noteq> k) m"

record PropMetadata =
  name :: string
  type :: Type
  isOptional :: bool
  default :: jsval

text \<open>
  A validator gets the property's value, its name and the object under construction. It
  answers with a reason or nothing, and may have written to the object: the model hands
  back the object's properties as the validator left them. A validator that throws or
  does not return is not modelled.
\<close>

type_synonym PropValidator =
  "jsval \<Rightarrow> string \<Rightarrow> (string \<times> jsval) list \<Rightarrow> string option \<times> (string \<times> jsval) list"

record store =
  classSet :: "ClassType set"
  classTypeToPropMetadata :: "ClassType \<Rightarrow> (string \<times> PropMetadata) list option"
  classTypeToPropValidator :: "ClassType \<Rightarrow> (string \<times> PropValidator list) list option"

definition emptyStore :: store where
  "emptyStore = \<lparr>classSet = {}, classTypeToPropMetadata = (\<lambda>c. None),
                  classTypeToPropValidator = (\<lambda>c. None)\<rparr>"

definition getOrCreateMetadataMap :: "ClassType \<Rightarrow> store \<Rightarrow> (string \<times> PropMetadata) list \<times> store" where
  "getOrCreateMetadataMap clsCtor st =
     (case classTypeToPropMetadata st clsCtor of
        None \<Rightarrow> ([], st\<lparr>classTypeToPropMetadata := (classTypeToPropMetadata st)(clsCtor \<mapsto> [])\<rparr>)
      | Some propNameToMetadata \<Rightarrow> (propNameToMetadata, st))"

definition getOrCreateValidatorMap ::
  "ClassType \<Rightarrow> store \<Rightarrow> (string \<times> PropValidator list) list \<times> store" where
  "getOrCreateValidatorMap clsCtor st =
     (case classTypeToPropValidator st clsCtor of
        None \<Rightarrow> ([], st\<lparr>classTypeToPropValidator := (classTypeToPropValidator st)(clsCtor \<mapsto> [])\<rparr>)
      | Some propNameToValidators \<Rightarrow> (propNameToValidators, st))"

section \<open>The recursive converter\<close>

text \<open>
  A conversion throws (\<open>Some (Inl e)\<close>), returns (\<open>Some (Inr v)\<close>) or runs out of fuel
  (\<open>None\<close>); \<open>andThen\<close> continues after a call that returned.
\<close>

definition andThen :: "(error + 'a) option \<Rightarrow> ('a \<Rightarrow> (error + 'b) option) \<Rightarrow> (error + 'b) option" where
  "andThen r f = (case r of None \<Rightarrow> None | Some (Inl e) \<Rightarrow> Some (Inl e) | Some (Inr x) \<Rightarrow> f x)"

text \<open>The loop of \<^verbatim>\<open>convertToArray\<close>: element \<open>i\<close> of the result is the converted element \<open>i\<close>.\<close>

fun convertElements ::
  "(jsval \<Rightarrow> (error + jsval) option) \<Rightarrow> jsval list \<Rightarrow> (error + jsval list) option" where
  "convertElements conv [] = Some (Inr [])"
| "convertElements conv (x # xs) =
     andThen (conv x) (\<lambda>y. andThen (convertElements conv xs) (\<lambda>ys. Some (Inr (y # ys))))"

text \<open>\<open>elementType\<close> is \<^verbatim>\<open>toType[0]\<close>, \<open>None\<close> when the array literal is empty.\<close>

definition convertToArray ::
  "(jsval \<Rightarrow> Type \<Rightarrow> (error + jsval) option) \<Rightarrow> jsval \<Rightarrow> Type option \<Rightarrow> (error + jsval) option" where
  "convertToArray conv val elementType =
     (case elementType of
        None \<Rightarrow> Some (Inl (ElementTypeUndefined val))
      | Some t \<Rightarrow>
          (case val of
             Arr xs \<Rightarrow> andThen (convertElements (\<lambda>x. conv x t) xs) (\<lambda>parsed. Some (Inr (Arr parsed)))
           | _ \<Rightarrow> Some (Inl (ArrayFail val))))"

text \<open>
  \<^verbatim>\<open>val[name]\<close> for a value that passed the \<^verbatim>\<open>typeof val === 'object'\<close> test and is not
  \<^verbatim>\<open>null\<close>: an own property of an object, the length or an element of an array, and
  \<^verbatim>\<open>undefined\<close> otherwise.
\<close>

definition arrayIndex :: "string \<Rightarrow> nat option" where
  "arrayIndex s =
     (if s \<noteq> [] \<and> list_all isDigit s \<and> (s = ''0'' \<or> hd s \<noteq> CHR ''0'') then Some (digitsVal s)
      else None)"

definition getOwn :: "(string \<times> jsval) list \<Rightarrow> string \<Rightarrow> jsval" where
  "getOwn ps k = (case map_of ps k of None \<Rightarrow> Undefined | Some v \<Rightarrow> v)"

fun getProp :: "jsval \<Rightarrow> string \<Rightarrow> jsval" where
  "getProp (Obj c ps) k = getOwn ps k"
| "getProp (Arr xs) k =
     (if k = ''length'' then Num (Fin (of_nat (length xs)))
      else (case arrayIndex k of
              None \<Rightarrow> Undefined
            | Some i \<Rightarrow> if i < length xs then xs ! i else Undefined))"
| "getProp v k = Undefined"

text \<open>Step 2 of \<^verbatim>\<open>convertToClass\<close>: the body of the loop over the registered properties.\<close>

definition populateProp ::
  "(jsval \<Rightarrow> Type \<Rightarrow> (error + jsval) option) \<Rightarrow> jsval \<Rightarrow> ClassType \<Rightarrow> PropMetadata \<Rightarrow>
   (string \<times> jsval) list \<Rightarrow> (error + (string \<times> jsval) list) option" where
  "populateProp conv val classType propMetadata parsed =
     (let propValue = getProp val (name propMetadata) in
      if looseUndefined propValue then
        (let propValue = default propMetadata in
         if looseUndefined propValue then
           (if isOptional propMetadata = False then
              Some (Inl (MissingRequiredField val classType (name propMetadata)))
            else if propValue = Undefined then Some (Inr parsed)
            else andThen (conv propValue (type propMetadata))
                   (\<lambda>v. Some (Inr (mapSet parsed (name propMetadata) v))))
         else andThen (conv propValue (type propMetadata))
                (\<lambda>v. Some (Inr (mapSet parsed (name propMetadata) v))))
      else andThen (conv propValue (type propMetadata))
             (\<lambda>v. Some (Inr (mapSet parsed (name propMetadata) v))))"

fun populateProps ::
  "(jsval \<Rightarrow> Type \<Rightarrow> (error + jsval) option) \<Rightarrow> jsval \<Rightarrow> ClassType \<Rightarrow> PropMetadata list \<Rightarrow>
   (string \<times> jsval) list \<Rightarrow> (error + (string \<times> jsval) list) option" where
  "populateProps conv val classType [] parsed = Some (Inr parsed)"
| "populateProps conv val classType (propMetadata # rest) parsed =
     andThen (populateProp conv val classType propMetadata parsed)
       (populateProps conv val classType rest)"

text \<open>Step 3: \<^verbatim>\<open>!!error\<close> holds for a reason that is a non-empty string.\<close>

definition truthy :: "string option \<Rightarrow> bool" where
  "truthy error = (case error of None \<Rightarrow> False | Some reason \<Rightarrow> reason \<noteq> [])"

fun runValidators ::
  "jsval \<Rightarrow> ClassType \<Rightarrow> string \<Rightarrow> jsval \<Rightarrow> PropValidator list \<Rightarrow> (string \<times> jsval) list \<Rightarrow>
   error + (string \<times> jsval) list" where
  "runValidators val classType propName propValue [] parsed = Inr parsed"
| "runValidators val classType propName propValue (validator # rest) parsed =
     (case validator propValue propName parsed of
        (error, parsed') \<Rightarrow>
          if truthy error then
            Inl (ValidationError val classType propName propValue
                   (case error of None \<Rightarrow> [] | Some reason \<Rightarrow> reason))
          else runValidators val classType propName propValue rest parsed')"

fun validateProps ::
  "jsval \<Rightarrow> ClassType \<Rightarrow> (string \<times> PropValidator list) list \<Rightarrow> string list \<Rightarrow>
   (string \<times> jsval) list \<Rightarrow> error + (string \<times> jsval) list" where
  "validateProps val classType propNameToValidators [] parsed = Inr parsed"
| "validateProps val classType propNameToValidators (propName # rest) parsed =
     (case map_of propNameToValidators propName of
        None \<Rightarrow> validateProps val classType propNameToValidators rest parsed
      | Some validators \<Rightarrow>
          (let propValue = getOwn parsed propName in
           if propValue \<noteq> Undefined then
             (case runValidators val classType propName propValue validators parsed of
                Inl e \<Rightarrow> Inl e
              | Inr parsed' \<Rightarrow> validateProps val classType propNameToValidators rest parsed')
           else validateProps val classType propNameToValidators rest parsed))"

definition convertToClass ::
  "(jsval \<Rightarrow> Type \<Rightarrow> (error + jsval) option) \<Rightarrow> store \<Rightarrow> jsval \<Rightarrow> ClassType \<Rightarrow> (error + jsval) option" where
  "convertToClass conv st val classType =
     (if typeof val \<noteq> ''object'' then Some (Inl (ClassFail val classType))
      else if val = Null then Some (Inr Null)
      else
        andThen
          (case classTypeToPropMetadata st classType of
             None \<Rightarrow> Some (Inr [])
           | Some propNameToMetadata \<Rightarrow>
               populateProps conv val classType (map snd propNameToMetadata) [])
          (\<lambda>parsed.
             case (case classTypeToPropValidator st classType of
                     None \<Rightarrow> Inr parsed
                   | Some propNameToValidators \<Rightarrow>
                       validateProps val classType propNameToValidators
                         (map fst propNameToValidators) parsed) of
               Inl e \<Rightarrow> Some (Inl e)
             | Inr parsed' \<Rightarrow> Some (Inr (Obj (Some classType) parsed'))))"

text \<open>
  \<^verbatim>\<open>convertToType\<close> calls itself through arrays and classes, and a class whose default
  value is again an object of that class makes it call itself for ever. The first argument
  bounds the depth of the calls: \<open>None\<close> says the bound was reached.
\<close>

primrec convertToType ::
  "nat \<Rightarrow> (jsval \<Rightarrow> jsnum) \<Rightarrow> store \<Rightarrow> jsval \<Rightarrow> Type \<Rightarrow> (error + jsval) option" where
  "convertToType 0 newDate st val toType = None"
| "convertToType (Suc fuel) newDate st val toType =
     andThen
       (case toType of
          PrimitiveT IntT \<Rightarrow> Some (convertToInt val)
        | PrimitiveT FloatT \<Rightarrow> Some (convertToFloat val)
        | PrimitiveT StringT \<Rightarrow> Some (convertToString val)
        | PrimitiveT BooleanT \<Rightarrow> Some (convertToBoolean val)
        | DateT \<Rightarrow> Some (convertToDate newDate val)
        | ObjectT \<Rightarrow> Some (convertToObject val)
        | ArrayT ts \<Rightarrow>
            convertToArray (convertToType fuel newDate st) val
              (case ts of [] \<Rightarrow> None | t # rest \<Rightarrow> Some t)
        | ClassT c \<Rightarrow>
            if c \<in> classSet st then convertToClass (convertToType fuel newDate st) st val c
            else Some (Inl (UnsupportedType val toType)))
       (\<lambda>parsed.
          if parsed = Undefined then Some (Inl (ResultUndefined val toType))
          else Some (Inr parsed))"

section \<open>The decorators\<close>

datatype validateOption = OneValidator PropValidator | ValidatorArray "PropValidator list"

record PropOptions =
  options_type :: Type
  options_isOptional :: "bool option"
  options_default :: jsval
  options_validate :: "validateOption option"

datatype declError = ArrayTypeLength Type

definition propValidatorsOf :: "PropOptions \<Rightarrow> PropValidator list" where
  "propValidatorsOf options =
     (case options_validate options of
        None \<Rightarrow> []
      | Some (OneValidator v) \<Rightarrow> [v]
      | Some (ValidatorArray vs) \<Rightarrow> vs)"

text \<open>
  \<^verbatim>\<open>Prop(options)\<close> applied to property \<open>propName\<close> of the class \<open>clsCtor\<close>
  (\<^verbatim>\<open>obj.constructor\<close>).
\<close>

definition Prop :: "PropOptions \<Rightarrow> ClassType \<Rightarrow> string \<Rightarrow> store \<Rightarrow> declError + store" where
  "Prop options clsCtor propName st =
     (if (case options_type options of ArrayT ts \<Rightarrow> length ts \<noteq> 1 | _ \<Rightarrow> False)
      then Inl (ArrayTypeLength (options_type options))
      else
        (let currentMetadata =
               \<lparr>name = propName,
                type = options_type options,
                isOptional = (if options_default options \<noteq> Undefined then True
                              else options_isOptional options = Some True),
                default = options_default options\<rparr>;
             (metadataMap, st1) = getOrCreateMetadataMap clsCtor st;
             st2 = st1\<lparr>classTypeToPropMetadata := (classTypeToPropMetadata st1)
                        (clsCtor \<mapsto> mapSet metadataMap (name currentMetadata) currentMetadata)\<rparr>;
             propValidators = propValidatorsOf options;
             (validatorMap, st3) = getOrCreateValidatorMap clsCtor st2
         in Inr (st3\<lparr>classTypeToPropValidator := (classTypeToPropValidator st3)
                        (clsCtor \<mapsto>
                           (if length propValidators > 0
                            then mapSet validatorMap (name currentMetadata) propValidators
                            else mapDelete validatorMap (name currentMetadata)))\<rparr>)))"

fun inheritMetadata ::
  "PropMetadata list \<Rightarrow> (string \<times> PropMetadata) list \<Rightarrow> (string \<times> PropMetadata) list" where
  "inheritMetadata [] currentMetadata = currentMetadata"
| "inheritMetadata (parentMetadata # rest) currentMetadata =
     inheritMetadata rest
       (if mapHas currentMetadata (name parentMetadata) = False
        then mapSet currentMetadata (name parentMetadata) parentMetadata
        else currentMetadata)"

fun inheritValidators ::
  "(string \<times> PropValidator list) list \<Rightarrow> (string \<times> PropValidator list) list \<Rightarrow>
   (string \<times> PropValidator list) list" where
  "inheritValidators [] propNameToValidators = propNameToValidators"
| "inheritValidators ((propName, parentValidators) # rest) propNameToValidators =
     inheritValidators rest
       (if mapHas propNameToValidators propName = False
        then mapSet propNameToValidators propName parentValidators
        else propNameToValidators)"

text \<open>
  \<^verbatim>\<open>Class()\<close> applied to the class \<open>clsCtor\<close>; \<open>parentCtor\<close> is the class it extends,
  \<open>None\<close> when it extends none.
\<close>

definition Class :: "ClassType option \<Rightarrow> ClassType \<Rightarrow> store \<Rightarrow> store" where
  "Class parentCtor clsCtor st =
     (let st1 =
            (case (case parentCtor of None \<Rightarrow> None | Some p \<Rightarrow> classTypeToPropMetadata st p) of
               None \<Rightarrow> st
             | Some parentMetadataMap \<Rightarrow>
                 (case getOrCreateMetadataMap clsCtor st of
                    (currentMetadata, s) \<Rightarrow>
                      s\<lparr>classTypeToPropMetadata := (classTypeToPropMetadata s)
                          (clsCtor \<mapsto> inheritMetadata (map snd parentMetadataMap) currentMetadata)\<rparr>));
          st2 =
            (case (case parentCtor of None \<Rightarrow> None | Some p \<Rightarrow> classTypeToPropValidator st1 p) of
               None \<Rightarrow> st1
             | Some parentValidatorMap \<Rightarrow>
                 (case getOrCreateValidatorMap clsCtor st1 of
                    (propNameToValidators, s) \<Rightarrow>
                      s\<lparr>classTypeToPropValidator := (classTypeToPropValidator s)
                          (clsCtor \<mapsto> inheritValidators parentValidatorMap propNameToValidators)\<rparr>))
      in st2\<lparr>classSet := insert clsCtor (classSet st2)\<rparr>)"

section \<open>Reading the store\<close>

text \<open>
  The validators and the metadata that a conversion finds for property \<open>n\<close> of class
  \<open>c\<close>: \<^verbatim>\<open>classTypeToPropValidator.get(c)\<close> followed by \<^verbatim>\<open>get(n)\<close>, and likewise
  for the metadata.
\<close>

definition validatorsOf :: "store \<Rightarrow> ClassType \<Rightarrow> string \<Rightarrow> PropValidator list option" where
  "validatorsOf st c n =
     (case classTypeToPropValidator st c of None \<Rightarrow> None | Some m \<Rightarrow> map_of m n)"

definition metadataOf :: "store \<Rightarrow> ClassType \<Rightarrow> string \<Rightarrow> PropMetadata option" where
  "metadataOf st c n =
     (case classTypeToPropMetadata st c of None \<Rightarrow> None | Some m \<Rightarrow> map_of m n)"




section \<open>Example declarations\<close>

text \<open>
  A host without valid dates, two validators, and a parent class 1 with a validated
  property \<^verbatim>\<open>x\<close> that the child class 2 declares again without validators.
\<close>

definition invalidDate :: "jsval \<Rightarrow> jsnum" where
  "invalidDate val = NaN"

definition rejectAll :: PropValidator where
  "rejectAll val propName obj = (Some ''rejected'', obj)"

definition acceptAll :: PropValidator where
  "acceptAll val propName obj = (None, obj)"

definition validatedInt :: PropOptions where
  "validatedInt = \<lparr>options_type = PrimitiveT IntT, options_isOptional = None,
                    options_default = Undefined, options_validate = Some (OneValidator rejectAll)\<rparr>"

definition plainFloat :: PropOptions where
  "plainFloat = \<lparr>options_type = PrimitiveT FloatT, options_isOptional = None,
                  options_default = Undefined, options_validate = None\<rparr>"

definition declared :: "declError + store \<Rightarrow> store" where
  "declared r = (case r of Inl e \<Rightarrow> emptyStore | Inr st \<Rightarrow> st)"

definition parentProps :: store where
  "parentProps = declared (Prop validatedInt 1 ''x'' emptyStore)"

definition parentStore :: store where
  "parentStore = Class None 1 parentProps"

definition childProps :: store where
  "childProps = declared (Prop plainFloat 2 ''x'' parentStore)"

definition childStore :: store where
  "childStore = Class (Some 1) 2 childProps"

text \<open>
  A class 3 with an optional property \<^verbatim>\<open>zip\<close>, and a class 4 whose property \<^verbatim>\<open>a\<close>
  has three validators, the second of which rejects, and whose property \<^verbatim>\<open>b\<close> has one.
\<close>

definition optionalZip :: PropOptions where
  "optionalZip = \<lparr>options_type = PrimitiveT IntT, options_isOptional = Some True,
                   options_default = Undefined, options_validate = Some (OneValidator acceptAll)\<rparr>"

definition addressStore :: store where
  "addressStore = Class None 3 (declared (Prop optionalZip 3 ''zip'' emptyStore))"

definition staged :: PropOptions where
  "staged = \<lparr>options_type = PrimitiveT FloatT, options_isOptional = None,
              options_default = Undefined,
              options_validate = Some (ValidatorArray [acceptAll, rejectAll, acceptAll])\<rparr>"

definition orderStore :: store where
  "orderStore =
     Class None 4 (declared (Prop validatedInt 4 ''b'' (declared (Prop staged 4 ''a'' emptyStore))))"

section \<open>Properties of the primitive converters\<close>

lemmas parse_defs = parseFloatString_def strDecimalLiteral_def strUnsignedDecimalLiteral_def
  isWhiteSpace_def isDigit_def digitsVal_def digitVal_def exponentPart_def pow10_def

text \<open>
  C1. \<^verbatim>\<open>convertToType(val, String)\<close> should return a string unchanged and a number in
  decimal form. The code compares \<open>val\<close> with the word \<^verbatim>\<open>'string'\<close> instead of its
  \<^verbatim>\<open>typeof\<close>: the string \<^verbatim>\<open>'hello'\<close> and the number 5 are both rejected.
\<close>

theorem convertToString_rejects_string_and_number:
  "convertToType (Suc fuel) newDate st (Str ''hello'') (PrimitiveT StringT)
     = Some (Inl (StringFail (Str ''hello'')))
   \<and> convertToType (Suc fuel) newDate st (Num (Fin 5)) (PrimitiveT StringT)
     = Some (Inl (StringFail (Num (Fin 5))))"
  by (simp add: andThen_def convertToString_def)

text \<open>
  C2. \<^verbatim>\<open>convertToType(val, Boolean)\<close> should return a boolean unchanged. The code
  compares \<open>val\<close> with the word \<^verbatim>\<open>'boolean'\<close>: both booleans are rejected, and the string
  \<^verbatim>\<open>'boolean'\<close> is returned as it is.
\<close>

theorem convertToBoolean_rejects_boolean:
  "convertToType (Suc fuel) newDate st (Bool True) (PrimitiveT BooleanT)
     = Some (Inl (BooleanFail (Bool True)))
   \<and> convertToType (Suc fuel) newDate st (Bool False) (PrimitiveT BooleanT)
     = Some (Inl (BooleanFail (Bool False)))
   \<and> convertToType (Suc fuel) newDate st (Str ''boolean'') (PrimitiveT BooleanT)
     = Some (Inr (Str ''boolean''))"
  by (simp add: andThen_def convertToBoolean_def)

text \<open>
  C9. Int and Float conversion read a string with \<^verbatim>\<open>parseFloat\<close>, which stops at the
  first character that cannot continue a decimal literal: \<^verbatim>\<open>'5abc'\<close> converts to 5, and
  \<^verbatim>\<open>abc\<close> is left unread.
\<close>

theorem parseFloat_reads_prefix:
  "convertToType (Suc fuel) newDate st (Str ''5abc'') (PrimitiveT IntT) = Some (Inr (Num (Fin 5)))
   \<and> convertToType (Suc fuel) newDate st (Str ''5abc'') (PrimitiveT FloatT) = Some (Inr (Num (Fin 5)))
   \<and> strDecimalLiteral ''5abc'' = Some (Fin 5, ''abc'')"
  by (simp add: andThen_def convertToInt_def convertToFloat_def parse_defs)

section \<open>Properties of the dispatcher\<close>

text \<open>
  C3, as claimed: converting \<^verbatim>\<open>null\<close> to an array type yields \<^verbatim>\<open>null\<close>. The code
  throws instead, here for an array of Int.
\<close>

theorem null_to_array_counterexample:
  "convertToType 1 invalidDate emptyStore Null (ArrayT [PrimitiveT IntT])
     = Some (Inl (ArrayFail Null))"
  by (simp add: andThen_def convertToArray_def)

text \<open>
  C3, amended: for every element type, converting \<^verbatim>\<open>null\<close> to the array type fails with
  the error of an input that is not an array.
\<close>

theorem null_to_array_fails:
  "convertToType (Suc fuel) newDate st Null (ArrayT [elem]) = Some (Inl (ArrayFail Null))"
  by (simp add: andThen_def convertToArray_def)

text \<open>
  C8. Converting \<^verbatim>\<open>null\<close> to a registered class returns \<^verbatim>\<open>null\<close>; converting
  \<^verbatim>\<open>null\<close> to Int fails.
\<close>

theorem null_to_class_and_int:
  "c \<in> classSet st \<Longrightarrow>
     convertToType (Suc fuel) newDate st Null (ClassT c) = Some (Inr Null)
     \<and> convertToType (Suc fuel) newDate st Null (PrimitiveT IntT) = Some (Inl (IntFail Null))"
  by (simp add: andThen_def convertToClass_def convertToInt_def)

theorem null_to_class_and_int_witness:
  "1 \<in> classSet (Class None 1 emptyStore)
   \<and> convertToType 1 invalidDate (Class None 1 emptyStore) Null (ClassT 1) = Some (Inr Null)
   \<and> convertToType 1 invalidDate (Class None 1 emptyStore) Null (PrimitiveT IntT)
       = Some (Inl (IntFail Null))"
proof -
  have h: "1 \<in> classSet (Class None 1 emptyStore)"
    by (simp add: Class_def emptyStore_def)
  show ?thesis
    using h null_to_class_and_int [OF h, of 0 invalidDate] by simp
qed

text \<open>
  C10. Whatever the input and the target type, a call of \<^verbatim>\<open>convertToType\<close> that returns
  does not return \<^verbatim>\<open>undefined\<close>.
\<close>

theorem result_never_undefined:
  "convertToType fuel newDate st val toType = Some (Inr v) \<Longrightarrow> v \<noteq> Undefined"
  by (cases fuel) (auto simp: andThen_def split: option.splits sum.splits if_splits)

theorem result_never_undefined_witness:
  "convertToType 1 invalidDate emptyStore (Str ''7'') (PrimitiveT FloatT) = Some (Inr (Num (Fin 7)))
   \<and> Num (Fin 7) \<noteq> Undefined"
proof -
  have h: "convertToType 1 invalidDate emptyStore (Str ''7'') (PrimitiveT FloatT)
             = Some (Inr (Num (Fin 7)))"
    by (simp add: andThen_def convertToFloat_def parse_defs)
  show ?thesis
    using h result_never_undefined [OF h] by simp
qed

section \<open>Properties of the decorators\<close>

lemmas store_defs = Prop_def Class_def declared_def emptyStore_def getOrCreateMetadataMap_def
  getOrCreateValidatorMap_def propValidatorsOf_def mapDelete_def mapHas_def Let_def
  validatorsOf_def metadataOf_def

lemmas example_defs = parentStore_def parentProps_def childStore_def childProps_def
  validatedInt_def plainFloat_def addressStore_def optionalZip_def orderStore_def staged_def

lemma map_of_mapSet: "map_of (mapSet m k v) k' = (if k' = k then Some v else map_of m k')"
  by (induction m) auto

lemma map_of_mapDelete: "map_of (mapDelete m k) k' = (if k' = k then None else map_of m k')"
  by (induction m) (auto simp: mapDelete_def)

lemma map_of_inheritValidators:
  "map_of (inheritValidators pv m) n = (case map_of m n of Some vs \<Rightarrow> Some vs | None \<Rightarrow> map_of pv n)"
proof (induction pv arbitrary: m)
  case Nil
  then show ?case by (simp split: option.splits)
next
  case (Cons e pv)
  obtain k vs where e: "e = (k, vs)" by (cases e)
  show ?case
    unfolding e by (simp add: Cons.IH mapHas_def map_of_mapSet split: option.splits)
qed

lemma map_of_inheritMetadata:
  "map_of (inheritMetadata pms m) n =
     (case map_of m n of Some x \<Rightarrow> Some x | None \<Rightarrow> map_of (map (\<lambda>pm. (name pm, pm)) pms) n)"
proof (induction pms arbitrary: m)
  case Nil
  then show ?case by (simp split: option.splits)
next
  case (Cons pm pms)
  show ?case
    by (simp add: Cons.IH mapHas_def map_of_mapSet split: option.splits)
qed

lemma validatorsOf_Class:
  "validatorsOf (Class (Some p) c st) c n =
     (case validatorsOf st c n of Some vs \<Rightarrow> Some vs | None \<Rightarrow> validatorsOf st p n)"
  by (auto simp: validatorsOf_def Class_def Let_def getOrCreateMetadataMap_def
      getOrCreateValidatorMap_def map_of_inheritValidators split: option.splits)

lemma metadataOf_Class_own:
  "metadataOf st c n = Some md \<Longrightarrow> metadataOf (Class parent c st) c n = Some md"
  by (auto simp: metadataOf_def Class_def Let_def getOrCreateMetadataMap_def
      getOrCreateValidatorMap_def map_of_inheritMetadata split: option.splits)

lemma validatorsOf_Prop_same:
  "Prop options c n st = Inr st' \<Longrightarrow>
     validatorsOf st' c n = (if propValidatorsOf options = [] then None else Some (propValidatorsOf options))"
  by (auto simp: validatorsOf_def Prop_def Let_def getOrCreateMetadataMap_def
      getOrCreateValidatorMap_def map_of_mapSet map_of_mapDelete split: option.splits if_splits)

lemma validatorsOf_Prop_other:
  "Prop options c n st = Inr st' \<Longrightarrow> c' \<noteq> c \<Longrightarrow> validatorsOf st' c' n' = validatorsOf st c' n'"
  by (auto simp: validatorsOf_def Prop_def Let_def getOrCreateMetadataMap_def
      getOrCreateValidatorMap_def split: option.splits if_splits)

lemma metadataOf_Prop_same:
  "Prop options c n st = Inr st' \<Longrightarrow>
     metadataOf st' c n = Some \<lparr>name = n, type = options_type options,
        isOptional = (if options_default options \<noteq> Undefined then True else options_isOptional options = Some True),
        default = options_default options\<rparr>"
  by (auto simp: metadataOf_def Prop_def Let_def getOrCreateMetadataMap_def
      getOrCreateValidatorMap_def map_of_mapSet split: option.splits if_splits)

lemma validators_Class_cong:
  "classTypeToPropValidator stA = classTypeToPropValidator stB \<Longrightarrow>
     classTypeToPropValidator (Class parent c stA) = classTypeToPropValidator (Class parent c stB)"
  by (auto simp: Class_def Let_def getOrCreateMetadataMap_def getOrCreateValidatorMap_def
      split: option.splits)













text \<open>
  C4, as claimed: a field that the child declares again loses every validator of the
  parent. In the example the child 2 declares \<^verbatim>\<open>x\<close> again with another type and no
  validator, and the merged schema of the child has the child's metadata for \<^verbatim>\<open>x\<close>
  together with the parent's validator.
\<close>

theorem redeclared_field_keeps_parent_validators:
  "propValidatorsOf plainFloat = []
   \<and> metadataOf parentStore 1 ''x''
       = Some \<lparr>name = ''x'', type = PrimitiveT IntT, isOptional = False, default = Undefined\<rparr>
   \<and> validatorsOf parentStore 1 ''x'' = Some [rejectAll]
   \<and> metadataOf childStore 2 ''x''
       = Some \<lparr>name = ''x'', type = PrimitiveT FloatT, isOptional = False, default = Undefined\<rparr>
   \<and> validatorsOf childStore 2 ''x'' = Some [rejectAll]"
  by (simp add: store_defs example_defs)

text \<open>
  C4, amended: when the child declares a field again and is then registered, the child's
  metadata (type, optionality, default) replace the parent's for that name; the parent's
  validators for that name are replaced when the new declaration has at least one validator,
  and stay attached when it has none.
\<close>

theorem redeclared_field_replaces_metadata:
  assumes "Prop options c n st = Inr st1" and "p \<noteq> c"
  shows "metadataOf (Class (Some p) c st1) c n
           = Some \<lparr>name = n, type = options_type options,
                   isOptional = (if options_default options \<noteq> Undefined then True
                                 else options_isOptional options = Some True),
                   default = options_default options\<rparr>
         \<and> validatorsOf (Class (Some p) c st1) c n
           = (if propValidatorsOf options = [] then validatorsOf st p n
              else Some (propValidatorsOf options))"
proof -
  have m: "metadataOf (Class (Some p) c st1) c n
           = Some \<lparr>name = n, type = options_type options,
                   isOptional = (if options_default options \<noteq> Undefined then True
                                 else options_isOptional options = Some True),
                   default = options_default options\<rparr>"
    by (rule metadataOf_Class_own) (rule metadataOf_Prop_same [OF assms(1)])
  have "validatorsOf st1 p n = validatorsOf st p n"
    using assms by (rule validatorsOf_Prop_other)
  then have v: "validatorsOf (Class (Some p) c st1) c n
           = (if propValidatorsOf options = [] then validatorsOf st p n
              else Some (propValidatorsOf options))"
    by (simp add: validatorsOf_Class validatorsOf_Prop_same [OF assms(1)])
  from m v show ?thesis by simp
qed

theorem redeclared_field_replaces_metadata_witness:
  "Prop plainFloat 2 ''x'' parentStore = Inr childProps \<and> (1::nat) \<noteq> 2
   \<and> metadataOf childStore 2 ''x''
       = Some \<lparr>name = ''x'', type = PrimitiveT FloatT, isOptional = False, default = Undefined\<rparr>
   \<and> validatorsOf childStore 2 ''x'' = validatorsOf parentStore 1 ''x''"
proof -
  have h1: "Prop plainFloat 2 ''x'' parentStore = Inr childProps"
    by (simp add: childProps_def declared_def Prop_def plainFloat_def Let_def split: prod.splits)
  have h2: "(1::nat) \<noteq> 2" by simp
  have e: "propValidatorsOf plainFloat = []"
    by (simp add: propValidatorsOf_def plainFloat_def)
  show ?thesis
    using h1 h2 e redeclared_field_replaces_metadata [OF h1 h2]
    by (simp add: childStore_def plainFloat_def)
qed

text \<open>
  C5. Validators are inherited name by name, whatever the metadata: after \<^verbatim>\<open>Class\<close> the
  child has for a name its own validator list when it had one, and the parent's list
  otherwise; a declaration gives the child a list of its own exactly when it names at
  least one validator; and the merged validators depend on the validator maps alone.
\<close>

theorem validators_inherited_per_name:
  "validatorsOf (Class (Some p) c st) c n
     = (case validatorsOf st c n of Some vs \<Rightarrow> Some vs | None \<Rightarrow> validatorsOf st p n)
   \<and> (Prop options c n st = Inr st' \<longrightarrow>
        validatorsOf st' c n
          = (if propValidatorsOf options = [] then None else Some (propValidatorsOf options)))
   \<and> (classTypeToPropValidator stA = classTypeToPropValidator stB \<longrightarrow>
        classTypeToPropValidator (Class parent c stA) = classTypeToPropValidator (Class parent c stB))"
  using validatorsOf_Class validatorsOf_Prop_same validators_Class_cong by blast

theorem validators_inherited_per_name_witness:
  "Prop validatedInt 1 ''x'' emptyStore = Inr parentProps
   \<and> validatorsOf parentProps 1 ''x'' = Some [rejectAll]
   \<and> validatorsOf (Class (Some 2) 1 emptyStore) 1 ''x'' = None
   \<and> classTypeToPropValidator (childProps\<lparr>classTypeToPropMetadata := classTypeToPropMetadata emptyStore\<rparr>)
       = classTypeToPropValidator childProps
   \<and> classTypeToPropValidator
         (Class (Some 1) 2 (childProps\<lparr>classTypeToPropMetadata := classTypeToPropMetadata emptyStore\<rparr>))
       = classTypeToPropValidator childStore"
proof -
  have h1: "Prop validatedInt 1 ''x'' emptyStore = Inr parentProps"
    by (simp add: parentProps_def declared_def Prop_def validatedInt_def Let_def split: prod.splits)
  have h2: "classTypeToPropValidator
              (childProps\<lparr>classTypeToPropMetadata := classTypeToPropMetadata emptyStore\<rparr>)
            = classTypeToPropValidator childProps"
    by simp
  have e: "propValidatorsOf validatedInt = [rejectAll]"
    by (simp add: propValidatorsOf_def validatedInt_def)
  have n: "validatorsOf emptyStore 1 ''x'' = None" "validatorsOf emptyStore 2 ''x'' = None"
    by (simp_all add: validatorsOf_def emptyStore_def)
  show ?thesis
    using h1 h2 e n
      validators_inherited_per_name [where p = 2 and c = 1 and st = emptyStore and n = "''x''"
        and options = validatedInt and st' = parentProps]
      validators_inherited_per_name [where c = 2 and parent = "Some 1" and stB = childProps
        and stA = "childProps\<lparr>classTypeToPropMetadata := classTypeToPropMetadata emptyStore\<rparr>"]
    by (simp add: childStore_def)
qed

section \<open>Properties of the record converter\<close>







lemma validateProps_append:
  "validateProps val c vm (ks1 @ ks2) parsed =
     (case validateProps val c vm ks1 parsed of Inl e \<Rightarrow> Inl e | Inr p \<Rightarrow> validateProps val c vm ks2 p)"
  by (induction ks1 arbitrary: parsed) (auto simp: Let_def split: option.splits sum.splits)

lemma runValidators_append:
  "runValidators val c n x (vs1 @ vs2) parsed =
     (case runValidators val c n x vs1 parsed of Inl e \<Rightarrow> Inl e | Inr p \<Rightarrow> runValidators val c n x vs2 p)"
  by (induction vs1 arbitrary: parsed) (auto split: prod.splits)

lemma runValidators_first_failure:
  assumes "runValidators val c n x vs1 parsed1 = Inr parsed2"
    and "validator x n parsed2 = (Some reason, parsed3)" and "reason \<noteq> []"
  shows "runValidators val c n x (vs1 @ validator # vs2) parsed1 = Inl (ValidationError val c n x reason)"
  using assms by (simp add: runValidators_append truthy_def)

lemma validateProps_first_failure:
  assumes "validateProps val c vm ks1 parsed = Inr parsed1"
    and "map_of vm n = Some (vs1 @ validator # vs2)"
    and "getOwn parsed1 n \<noteq> Undefined"
    and "runValidators val c n (getOwn parsed1 n) vs1 parsed1 = Inr parsed2"
    and "validator (getOwn parsed1 n) n parsed2 = (Some reason, parsed3)" and "reason \<noteq> []"
  shows "validateProps val c vm (ks1 @ n # ks2) parsed
           = Inl (ValidationError val c n (getOwn parsed1 n) reason)"
proof -
  have "runValidators val c n (getOwn parsed1 n) (vs1 @ validator # vs2) parsed1
          = Inl (ValidationError val c n (getOwn parsed1 n) reason)"
    using assms(4,5,6) by (rule runValidators_first_failure)
  then show ?thesis
    using assms(1,2,3) by (simp add: validateProps_append Let_def)
qed













text \<open>
  C7. Validation starts from the fully populated object: a failure while populating is
  the result whatever the validators are. A property whose value is \<^verbatim>\<open>undefined\<close> is
  passed over. Otherwise, when the names before \<open>propName\<close> validate and the validators
  \<open>vs1\<close> before \<open>validator\<close> accept, a non-empty reason from \<open>validator\<close> is the
  error of the record conversion, whatever validators (\<open>vs2\<close>) and names (\<open>ks2\<close>) follow,
  and \<^verbatim>\<open>convertToType\<close> passes that error on.
\<close>

theorem validation_fail_fast:
  "(typeof val = ''object'' \<and> val \<noteq> Null
      \<and> (case classTypeToPropMetadata st c of
            None \<Rightarrow> Some (Inr [])
          | Some m \<Rightarrow> populateProps conv val c (map snd m) []) = Some (Inr parsed)
      \<and> classTypeToPropValidator st c = Some vm
      \<and> map fst vm = ks1 @ propName # ks2
      \<and> validateProps val c vm ks1 parsed = Inr parsed1
      \<and> map_of vm propName = Some (vs1 @ validator # vs2)
      \<and> getOwn parsed1 propName \<noteq> Undefined
      \<and> runValidators val c propName (getOwn parsed1 propName) vs1 parsed1 = Inr parsed2
      \<and> validator (getOwn parsed1 propName) propName parsed2 = (Some reason, parsed3)
      \<and> reason \<noteq> []
    \<longrightarrow> convertToClass conv st val c
          = Some (Inl (ValidationError val c propName (getOwn parsed1 propName) reason)))
   \<and> (typeof val = ''object'' \<and> val \<noteq> Null
      \<and> (case classTypeToPropMetadata st c of
            None \<Rightarrow> Some (Inr [])
          | Some m \<Rightarrow> populateProps conv val c (map snd m) []) = Some (Inl e)
    \<longrightarrow> convertToClass conv st val c = Some (Inl e))
   \<and> (map_of vm propName = Some vs \<and> getOwn parsed propName = Undefined
    \<longrightarrow> validateProps val c vm (propName # ks) parsed = validateProps val c vm ks parsed)
   \<and> (c \<in> classSet st \<and> convertToClass (convertToType fuel newDate st) st val c = Some (Inl e)
    \<longrightarrow> convertToType (Suc fuel) newDate st val (ClassT c) = Some (Inl e))"
proof (intro conjI impI)
  assume a: "typeof val = ''object'' \<and> val \<noteq> Null
      \<and> (case classTypeToPropMetadata st c of
            None \<Rightarrow> Some (Inr [])
          | Some m \<Rightarrow> populateProps conv val c (map snd m) []) = Some (Inr parsed)
      \<and> classTypeToPropValidator st c = Some vm
      \<and> map fst vm = ks1 @ propName # ks2
      \<and> validateProps val c vm ks1 parsed = Inr parsed1
      \<and> map_of vm propName = Some (vs1 @ validator # vs2)
      \<and> getOwn parsed1 propName \<noteq> Undefined
      \<and> runValidators val c propName (getOwn parsed1 propName) vs1 parsed1 = Inr parsed2
      \<and> validator (getOwn parsed1 propName) propName parsed2 = (Some reason, parsed3)
      \<and> reason \<noteq> []"
  from a have f1: "validateProps val c vm ks1 parsed = Inr parsed1"
    and f2: "map_of vm propName = Some (vs1 @ validator # vs2)"
    and f3: "getOwn parsed1 propName \<noteq> Undefined"
    and f4: "runValidators val c propName (getOwn parsed1 propName) vs1 parsed1 = Inr parsed2"
    and f5: "validator (getOwn parsed1 propName) propName parsed2 = (Some reason, parsed3)"
    and f6: "reason \<noteq> []"
    by simp_all
  have "validateProps val c vm (ks1 @ propName # ks2) parsed
          = Inl (ValidationError val c propName (getOwn parsed1 propName) reason)"
    by (rule validateProps_first_failure [OF f1 f2 f3 f4 f5 f6])
  then show "convertToClass conv st val c
          = Some (Inl (ValidationError val c propName (getOwn parsed1 propName) reason))"
    using a by (simp add: convertToClass_def andThen_def)
next
  assume "typeof val = ''object'' \<and> val \<noteq> Null
      \<and> (case classTypeToPropMetadata st c of
            None \<Rightarrow> Some (Inr [])
          | Some m \<Rightarrow> populateProps conv val c (map snd m) []) = Some (Inl e)"
  then show "convertToClass conv st val c = Some (Inl e)"
    by (simp add: convertToClass_def andThen_def)
next
  assume "map_of vm propName = Some vs \<and> getOwn parsed propName = Undefined"
  then show "validateProps val c vm (propName # ks) parsed = validateProps val c vm ks parsed"
    by simp
next
  assume "c \<in> classSet st \<and> convertToClass (convertToType fuel newDate st) st val c = Some (Inl e)"
  then show "convertToType (Suc fuel) newDate st val (ClassT c) = Some (Inl e)"
    by (simp add: andThen_def)
qed

theorem validation_fail_fast_witness:
  "convertToClass (convertToType 1 invalidDate orderStore) orderStore
       (Obj None [(''a'', Num (Fin 5)), (''b'', Num (Fin 6))]) 4
     = Some (Inl (ValidationError (Obj None [(''a'', Num (Fin 5)), (''b'', Num (Fin 6))]) 4 ''a''
                    (Num (Fin 5)) ''rejected''))
   \<and> convertToClass (convertToType 1 invalidDate orderStore) orderStore (Obj None []) 4
     = Some (Inl (MissingRequiredField (Obj None []) 4 ''a''))
   \<and> validateProps (Obj None []) 4 [(''a'', [rejectAll])] [''a''] [] = Inr []
   \<and> 4 \<in> classSet orderStore
   \<and> convertToType (Suc 1) invalidDate orderStore
       (Obj None [(''a'', Num (Fin 5)), (''b'', Num (Fin 6))]) (ClassT 4)
     = Some (Inl (ValidationError (Obj None [(''a'', Num (Fin 5)), (''b'', Num (Fin 6))]) 4 ''a''
                    (Num (Fin 5)) ''rejected''))"
proof -
  let ?val = "Obj None [(''a'', Num (Fin 5)), (''b'', Num (Fin 6))]"
  let ?parsed = "[(''a'', Num (Fin 5)), (''b'', Num (Fin 6))]"
  let ?vm = "[(''a'', [acceptAll, rejectAll, acceptAll]), (''b'', [rejectAll])]"
  let ?conv = "convertToType 1 invalidDate orderStore"
  have m: "classTypeToPropMetadata orderStore 4
             = Some [(''a'', \<lparr>name = ''a'', type = PrimitiveT FloatT, isOptional = False, default = Undefined\<rparr>),
                     (''b'', \<lparr>name = ''b'', type = PrimitiveT IntT, isOptional = False, default = Undefined\<rparr>)]"
    by (simp add: store_defs example_defs)
  have v: "classTypeToPropValidator orderStore 4 = Some ?vm"
    by (simp add: store_defs example_defs)
  have pop: "(case classTypeToPropMetadata orderStore 4 of
                None \<Rightarrow> Some (Inr [])
              | Some m \<Rightarrow> populateProps ?conv ?val 4 (map snd m) []) = Some (Inr ?parsed)"
    by (simp add: m populateProp_def andThen_def getOwn_def convertToInt_def convertToFloat_def)
  have pop0: "(case classTypeToPropMetadata orderStore 4 of
                None \<Rightarrow> Some (Inr [])
              | Some m \<Rightarrow> populateProps ?conv (Obj None []) 4 (map snd m) [])
              = Some (Inl (MissingRequiredField (Obj None []) 4 ''a''))"
    by (simp add: m populateProp_def andThen_def getOwn_def)
  have h1: "typeof ?val = ''object'' \<and> ?val \<noteq> Null
      \<and> (case classTypeToPropMetadata orderStore 4 of
            None \<Rightarrow> Some (Inr [])
          | Some m \<Rightarrow> populateProps ?conv ?val 4 (map snd m) []) = Some (Inr ?parsed)
      \<and> classTypeToPropValidator orderStore 4 = Some ?vm
      \<and> map fst ?vm = [] @ ''a'' # [''b'']
      \<and> validateProps ?val 4 ?vm [] ?parsed = Inr ?parsed
      \<and> map_of ?vm ''a'' = Some ([acceptAll] @ rejectAll # [acceptAll])
      \<and> getOwn ?parsed ''a'' \<noteq> Undefined
      \<and> runValidators ?val 4 ''a'' (getOwn ?parsed ''a'') [acceptAll] ?parsed = Inr ?parsed
      \<and> rejectAll (getOwn ?parsed ''a'') ''a'' ?parsed = (Some ''rejected'', ?parsed)
      \<and> ''rejected'' \<noteq> []"
    using pop v by (simp add: getOwn_def acceptAll_def rejectAll_def truthy_def)
  have h2: "typeof (Obj None []) = ''object'' \<and> Obj None [] \<noteq> Null
      \<and> (case classTypeToPropMetadata orderStore 4 of
            None \<Rightarrow> Some (Inr [])
          | Some m \<Rightarrow> populateProps ?conv (Obj None []) 4 (map snd m) [])
         = Some (Inl (MissingRequiredField (Obj None []) 4 ''a''))"
    using pop0 by simp
  have h3: "map_of [(''a'', [rejectAll])] ''a'' = Some [rejectAll] \<and> getOwn [] ''a'' = Undefined"
    by (simp add: getOwn_def)
  have t1: "convertToClass ?conv orderStore ?val 4
              = Some (Inl (ValidationError ?val 4 ''a'' (getOwn ?parsed ''a'') ''rejected''))"
    using h1 validation_fail_fast [where val = ?val and st = orderStore and c = 4 and conv = ?conv
        and parsed = ?parsed and vm = ?vm and ?ks1.0 = "[]" and propName = "''a''"
        and ?ks2.0 = "[''b'']" and ?parsed1.0 = ?parsed and ?vs1.0 = "[acceptAll]"
        and validator = rejectAll and ?vs2.0 = "[acceptAll]" and ?parsed2.0 = ?parsed
        and reason = "''rejected''" and ?parsed3.0 = ?parsed]
    by blast
  have t2: "convertToClass ?conv orderStore (Obj None []) 4
              = Some (Inl (MissingRequiredField (Obj None []) 4 ''a''))"
    using h2 validation_fail_fast [where val = "Obj None []" and st = orderStore and c = 4
        and conv = ?conv and e = "MissingRequiredField (Obj None []) 4 ''a''"]
    by blast
  have t3: "validateProps (Obj None []) 4 [(''a'', [rejectAll])] [''a''] []
              = validateProps (Obj None []) 4 [(''a'', [rejectAll])] [] []"
    using h3 validation_fail_fast [where vm = "[(''a'', [rejectAll])]" and propName = "''a''"
        and vs = "[rejectAll]" and parsed = "[]" and ks = "[]" and val = "Obj None []" and c = 4]
    by blast
  have cs: "4 \<in> classSet orderStore"
    by (simp add: store_defs example_defs)
  have t4: "convertToType (Suc 1) invalidDate orderStore ?val (ClassT 4)
              = Some (Inl (ValidationError ?val 4 ''a'' (getOwn ?parsed ''a'') ''rejected''))"
    using cs t1 validation_fail_fast [where c = 4 and st = orderStore and fuel = 1
        and newDate = invalidDate and val = ?val
        and e = "ValidationError ?val 4 ''a'' (getOwn ?parsed ''a'') ''rejected''"]
    by blast
  from t1 t2 t3 t4 cs show ?thesis by (simp add: getOwn_def)
qed

end
